theory Spec2Isabelle
  imports Complex_Main "HOL-Library.Char_ord" "HOL-Library.List_Lexorder"
    "HOL-Library.Product_Lexorder" "HOL-Library.Multiset"
begin

section \<open>The tables of the inventory database\<close>

text \<open>
  The four tables created by \<^verbatim>\<open>DatabaseManager.create_tables\<close>. A table is the list
  of its rows in insertion order. Columns of SQLite type \<^verbatim>\<open>REAL\<close> (Python
  \<^verbatim>\<open>float\<close>) are exact rationals here: rounding of binary floating point is outside
  the model. Columns of type \<^verbatim>\<open>TEXT\<close> are byte strings, compared bytewise as the
  default \<^verbatim>\<open>BINARY\<close> collation does.
\<close>

record item =
  iid :: int
  item_name :: string
  current_stock :: rat
  purchase_price :: rat
  sale_price :: rat
  created_at :: string

text \<open>The tables \<^verbatim>\<open>purchases\<close> and \<^verbatim>\<open>sales\<close> have the same columns.\<close>

record txn =
  tid :: int
  bill_no :: string
  date :: string
  item_id :: int
  quantity :: rat
  rate :: rat
  total :: rat
  txn_created_at :: string

record log_entry =
  lid :: int
  log_item_id :: int
  change_qty :: rat
  log_type :: string
  log_date :: string
  log_bill_no :: string
  log_created_at :: string

text \<open>
  The database as the single connection sees it. The \<open>seq\<close> fields are the rows of
  \<^verbatim>\<open>sqlite_sequence\<close>: with \<^verbatim>\<open>AUTOINCREMENT\<close> the largest row id ever
  handed out in a table is remembered, so that ids are never reused.
\<close>

record db =
  items :: "item list"
  purchases :: "txn list"
  sales :: "txn list"
  stock_log :: "log_entry list"
  seq_items :: int
  seq_purchases :: int
  seq_sales :: int
  seq_stock_log :: int

text \<open>The state after \<^verbatim>\<open>create_tables\<close> on a fresh file: four empty tables.\<close>

definition create_tables :: db where
  "create_tables =
     \<lparr>items = [], purchases = [], sales = [], stock_log = [],
      seq_items = 0, seq_purchases = 0, seq_sales = 0, seq_stock_log = 0\<rparr>"

text \<open>
  The row id of an \<^verbatim>\<open>INTEGER PRIMARY KEY AUTOINCREMENT\<close> column for a new row: one
  more than the largest id the table has ever held.
\<close>

definition next_rowid :: "int \<Rightarrow> int list \<Rightarrow> int" where
  "next_rowid seq ids = fold max ids seq + 1"

text \<open>
  What the source does not pass as an argument but reads from its environment:
  \<open>now\<close> is the value of \<^verbatim>\<open>CURRENT_TIMESTAMP\<close> for the rows the call inserts, and
  \<open>fault\<close> names the statement of the call (counted from 0 in program order) at which
  the storage layer raises an exception, if any does. \<^verbatim>\<open>BEGIN TRANSACTION\<close>
  is statement 0 of the calls that issue it; it raises, for one, when a transaction is
  already open on the connection.
\<close>

record env =
  now :: string
  fault :: "nat option"

definition raises :: "env \<Rightarrow> nat \<Rightarrow> bool" where
  "raises e k = (fault e = Some k)"

section \<open>Item catalogue\<close>

text \<open>
  \<^verbatim>\<open>add_item\<close>: the \<^verbatim>\<open>INSERT\<close> violates \<^verbatim>\<open>UNIQUE(item_name)\<close> when a
  row with the name exists; the handler for \<^verbatim>\<open>IntegrityError\<close> returns False.
  \<^verbatim>\<open>current_stock\<close> takes its column default 0. Of the environment only the
  clock is used: an exception of another class is not caught here and in
  \<^verbatim>\<open>update_item\<close>, and a call that ends so is no part of the model.
\<close>

definition add_item :: "db \<Rightarrow> env \<Rightarrow> string \<Rightarrow> rat \<Rightarrow> rat \<Rightarrow> bool \<times> db" where
  "add_item self e name pp sp =
     (if list_ex (\<lambda>i. item_name i = name) (items self) then (False, self)
      else
        let new = next_rowid (seq_items self) (map iid (items self)) in
        (True, self\<lparr>items := items self @
                 [\<lparr>iid = new, item_name = name, current_stock = 0,
                   purchase_price = pp, sale_price = sp, created_at = now e\<rparr>],
               seq_items := new\<rparr>))"

text \<open>
  \<^verbatim>\<open>update_item\<close>: the \<^verbatim>\<open>UPDATE\<close> touches the rows with the given id; it
  violates the uniqueness of names when such a row exists and another row carries the
  new name.
\<close>

definition item_update :: "int \<Rightarrow> string \<Rightarrow> rat \<Rightarrow> rat \<Rightarrow> item \<Rightarrow> item" where
  "item_update i name pp sp row =
     (if iid row = i
      then row\<lparr>item_name := name, purchase_price := pp, sale_price := sp\<rparr>
      else row)"

definition update_item :: "db \<Rightarrow> int \<Rightarrow> string \<Rightarrow> rat \<Rightarrow> rat \<Rightarrow> bool \<times> db" where
  "update_item self i name pp sp =
     (if list_ex (\<lambda>r. iid r = i) (items self) \<and>
         list_ex (\<lambda>r. iid r \<noteq> i \<and> item_name r = name) (items self)
      then (False, self)
      else (True, self\<lparr>items := map (item_update i name pp sp) (items self)\<rparr>))"

text \<open>
  \<^verbatim>\<open>delete_item\<close>: statements 0 and 1 count the purchase and sale rows of the item,
  statement 2 is the \<^verbatim>\<open>DELETE\<close>, statement 3 the commit. The bare
  \<^verbatim>\<open>except\<close> returns False without a rollback, so a delete whose commit raised
  stays visible on the connection.
\<close>

definition delete_item :: "db \<Rightarrow> env \<Rightarrow> int \<Rightarrow> bool \<times> db" where
  "delete_item self e i =
     (if raises e 0 then (False, self)
      else
        let purchase_count = length (filter (\<lambda>p. item_id p = i) (purchases self)) in
        if raises e 1 then (False, self)
        else
          let sale_count = length (filter (\<lambda>s. item_id s = i) (sales self)) in
          if purchase_count > 0 \<or> sale_count > 0 then (False, self)
          else if raises e 2 then (False, self)
          else
            let d = self\<lparr>items := filter (\<lambda>r. iid r \<noteq> i) (items self)\<rparr> in
            if raises e 3 then (False, d) else (True, d))"

definition get_item_by_id :: "db \<Rightarrow> int \<Rightarrow> item option" where
  "get_item_by_id self i = find (\<lambda>r. iid r = i) (items self)"

section \<open>Ledger: purchases and sales\<close>

text \<open>The three statements that \<^verbatim>\<open>add_purchase\<close> and \<^verbatim>\<open>add_sale\<close> execute.\<close>

definition insert_purchase ::
  "db \<Rightarrow> env \<Rightarrow> string \<Rightarrow> string \<Rightarrow> int \<Rightarrow> rat \<Rightarrow> rat \<Rightarrow> rat \<Rightarrow> db" where
  "insert_purchase self e b d i q r t =
     (let new = next_rowid (seq_purchases self) (map tid (purchases self)) in
      self\<lparr>purchases := purchases self @
              [\<lparr>tid = new, bill_no = b, date = d, item_id = i, quantity = q,
                rate = r, total = t, txn_created_at = now e\<rparr>],
            seq_purchases := new\<rparr>)"

definition insert_sale ::
  "db \<Rightarrow> env \<Rightarrow> string \<Rightarrow> string \<Rightarrow> int \<Rightarrow> rat \<Rightarrow> rat \<Rightarrow> rat \<Rightarrow> db" where
  "insert_sale self e b d i q r t =
     (let new = next_rowid (seq_sales self) (map tid (sales self)) in
      self\<lparr>sales := sales self @
              [\<lparr>tid = new, bill_no = b, date = d, item_id = i, quantity = q,
                rate = r, total = t, txn_created_at = now e\<rparr>],
            seq_sales := new\<rparr>)"

definition insert_stock_log ::
  "db \<Rightarrow> env \<Rightarrow> int \<Rightarrow> rat \<Rightarrow> string \<Rightarrow> string \<Rightarrow> string \<Rightarrow> db" where
  "insert_stock_log self e i c ty d b =
     (let new = next_rowid (seq_stock_log self) (map lid (stock_log self)) in
      self\<lparr>stock_log := stock_log self @
              [\<lparr>lid = new, log_item_id = i, change_qty = c, log_type = ty,
                log_date = d, log_bill_no = b, log_created_at = now e\<rparr>],
            seq_stock_log := new\<rparr>)"

definition purchase_update :: "int \<Rightarrow> rat \<Rightarrow> rat \<Rightarrow> item \<Rightarrow> item" where
  "purchase_update i q r row =
     (if iid row = i
      then row\<lparr>current_stock := current_stock row + q, purchase_price := r\<rparr>
      else row)"

definition sale_update :: "int \<Rightarrow> rat \<Rightarrow> rat \<Rightarrow> item \<Rightarrow> item" where
  "sale_update i q r row =
     (if iid row = i
      then row\<lparr>current_stock := current_stock row - q, sale_price := r\<rparr>
      else row)"

text \<open>
  \<^verbatim>\<open>add_purchase\<close>. Statements: 0 \<^verbatim>\<open>BEGIN TRANSACTION\<close>, 1 the insert into
  \<^verbatim>\<open>purchases\<close>, 2 the update of \<^verbatim>\<open>items\<close>, 3 the insert into
  \<^verbatim>\<open>stock_log\<close>, 4 the commit. The handler rolls back, which gives the state the
  call started from, and returns False. The existence of the item is not looked at.
\<close>

definition add_purchase ::
  "db \<Rightarrow> env \<Rightarrow> string \<Rightarrow> string \<Rightarrow> int \<Rightarrow> rat \<Rightarrow> rat \<Rightarrow> bool \<times> db" where
  "add_purchase self e b d i q r =
     (if raises e 0 then (False, self)
      else
        let t = q * r in
        if raises e 1 then (False, self)
        else
          let s1 = insert_purchase self e b d i q r t in
          if raises e 2 then (False, self)
          else
            let s2 = s1\<lparr>items := map (purchase_update i q r) (items s1)\<rparr> in
            if raises e 3 then (False, self)
            else
              let s3 = insert_stock_log s2 e i q ''purchase'' d b in
              if raises e 4 then (False, self) else (True, s3))"

text \<open>
  The second component of the result of \<^verbatim>\<open>add_sale\<close>: the strings
  \<^verbatim>\<open>"Success"\<close>, \<^verbatim>\<open>"Item not found"\<close>,
  \<^verbatim>\<open>f"Insufficient stock! Available: {current_stock}"\<close> and the text of a caught
  exception.
\<close>

datatype message = Success | Item_not_found | Insufficient_stock rat | Exception_text

text \<open>
  \<^verbatim>\<open>add_sale\<close>. Statements: 0 \<^verbatim>\<open>BEGIN TRANSACTION\<close>, 1 the select of the
  item's stock (\<^verbatim>\<open>fetchone\<close> takes the first row), 2 the insert into
  \<^verbatim>\<open>sales\<close>, 3 the update of \<^verbatim>\<open>items\<close>, 4 the insert into
  \<^verbatim>\<open>stock_log\<close>, 5 the commit.
\<close>

definition add_sale ::
  "db \<Rightarrow> env \<Rightarrow> string \<Rightarrow> string \<Rightarrow> int \<Rightarrow> rat \<Rightarrow> rat \<Rightarrow> (bool \<times> message) \<times> db" where
  "add_sale self e b d i q r =
     (if raises e 0 \<or> raises e 1 then ((False, Exception_text), self)
      else
        case find (\<lambda>row. iid row = i) (items self) of
          None \<Rightarrow> ((False, Item_not_found), self)
        | Some result \<Rightarrow>
            if current_stock result < q
            then ((False, Insufficient_stock (current_stock result)), self)
            else
              let t = q * r in
              if raises e 2 then ((False, Exception_text), self)
              else
                let s1 = insert_sale self e b d i q r t in
                if raises e 3 then ((False, Exception_text), self)
                else
                  let s2 = s1\<lparr>items := map (sale_update i q r) (items s1)\<rparr> in
                  if raises e 4 then ((False, Exception_text), self)
                  else
                    let s3 = insert_stock_log s2 e i (- q) ''sale'' d b in
                    if raises e 5 then ((False, Exception_text), self)
                    else ((True, Success), s3))"


definition get_last_sale_bill_no :: "db \<Rightarrow> string" where
  "get_last_sale_bill_no self =
     (case rev (sort_key tid (sales self)) of [] \<Rightarrow> ''S0000'' | result # _ \<Rightarrow> bill_no result)"

section \<open>Reporting queries\<close>

text \<open>
  The relational operators the queries use. A \<^verbatim>\<open>LEFT JOIN\<close> pairs a row with each
  matching row of the right table, or with \<^verbatim>\<open>NULL\<close> once when there is none.
\<close>

definition left_join :: "'a list \<Rightarrow> ('a \<Rightarrow> 'b \<Rightarrow> bool) \<Rightarrow> 'b list \<Rightarrow> ('a \<times> 'b option) list" where
  "left_join rows on tbl =
     concat (map (\<lambda>r. case filter (on r) tbl of
                         [] \<Rightarrow> [(r, None)]
                       | m # ms \<Rightarrow> map (\<lambda>x. (r, Some x)) (m # ms)) rows)"

definition inner_join :: "'a list \<Rightarrow> ('a \<Rightarrow> 'b \<Rightarrow> bool) \<Rightarrow> 'b list \<Rightarrow> ('a \<times> 'b) list" where
  "inner_join rows on tbl = concat (map (\<lambda>r. map (\<lambda>x. (r, x)) (filter (on r) tbl)) rows)"

text \<open>\<^verbatim>\<open>SUM\<close> skips \<^verbatim>\<open>NULL\<close> and is \<^verbatim>\<open>NULL\<close> when nothing is left.\<close>

definition sql_sum :: "rat option list \<Rightarrow> rat option" where
  "sql_sum vs = (case List.map_filter (\<lambda>v. v) vs of [] \<Rightarrow> None | w # ws \<Rightarrow> Some (sum_list (w # ws)))"

definition coalesce :: "rat option \<Rightarrow> rat \<Rightarrow> rat" where
  "coalesce v dflt = (case v of None \<Rightarrow> dflt | Some x \<Rightarrow> x)"

text \<open>
  \<^verbatim>\<open>X LIKE pattern\<close> with the default settings: \<^verbatim>\<open>%\<close> matches any run of
  characters, \<^verbatim>\<open>_\<close> any one character, and ASCII letters match regardless of
  case. The first argument is the pattern.
\<close>

definition ascii_lower :: "char \<Rightarrow> char" where
  "ascii_lower c =
     (if CHR ''A'' \<le> c \<and> c \<le> CHR ''Z'' then char_of (of_char c + (32::nat)) else c)"

fun like :: "string \<Rightarrow> string \<Rightarrow> bool" where
  "like [] s = (s = [])"
| "like (p # ps) [] = (p = CHR ''%'' \<and> like ps [])"
| "like (p # ps) (c # cs) =
     (if p = CHR ''%'' then like ps (c # cs) \<or> like (p # ps) cs
      else (p = CHR ''_'' \<or> ascii_lower p = ascii_lower c) \<and> like ps cs)"

type_synonym joined = "(item \<times> txn option) \<times> txn option"

text \<open>
  \<^verbatim>\<open>FROM items i LEFT JOIN purchases p ON i.id = p.item_id
  LEFT JOIN sales s ON i.id = s.item_id\<close>
\<close>

definition items_join :: "db \<Rightarrow> joined list" where
  "items_join self =
     left_join
       (left_join (items self) (\<lambda>i p. iid i = item_id p) (purchases self))
       (\<lambda>(i, p) s. iid i = item_id s) (sales self)"

text \<open>\<^verbatim>\<open>GROUP BY i.id\<close>: the joined rows, split by the id of their item.\<close>

definition group_by_id :: "joined list \<Rightarrow> joined list list" where
  "group_by_id rows =
     map (\<lambda>g. filter (\<lambda>((i, p), s). iid i = g) rows)
         (remdups (map (\<lambda>((i, p), s). iid i) rows))"

text \<open>
  The row (id, item_name, purchased_qty, sold_qty, current_stock, purchase_price,
  sale_price, created_at) that the \<^verbatim>\<open>SELECT\<close> list makes of one group.
\<close>

type_synonym item_row = "int \<times> string \<times> rat \<times> rat \<times> rat \<times> rat \<times> rat \<times> string"

definition select_group :: "joined list \<Rightarrow> item_row list" where
  "select_group grp =
     (case grp of
        [] \<Rightarrow> []
      | ((i, p0), s0) # rest \<Rightarrow>
          [(iid i, item_name i,
            coalesce (sql_sum (map (\<lambda>((i, p), s). map_option quantity p) grp)) 0,
            coalesce (sql_sum (map (\<lambda>((i, p), s). map_option quantity s) grp)) 0,
            current_stock i, purchase_price i, sale_price i, created_at i)])"

definition order_by_item_name :: "item_row list \<Rightarrow> item_row list" where
  "order_by_item_name rows = sort_key (\<lambda>(i, name, rest). name) rows"

definition get_all_items :: "db \<Rightarrow> item_row list" where
  "get_all_items self =
     order_by_item_name (concat (map select_group (group_by_id (items_join self))))"

definition search_items :: "db \<Rightarrow> string \<Rightarrow> item_row list" where
  "search_items self search_term =
     order_by_item_name (concat (map select_group (group_by_id
       (filter (\<lambda>((i, p), s). like (''%'' @ search_term @ ''%'') (item_name i))
          (items_join self)))))"

subsection \<open>The bill listing of the bills screen\<close>

text \<open>
  \<^verbatim>\<open>BillsViewScreen.load_bills\<close>. The combo box offers three bill types;
  \<open>search_term\<close> is the text of the search field after \<^verbatim>\<open>strip()\<close>. A bill is
  the tuple (kind, bill_no, date, item_name, quantity, rate, total).
\<close>

datatype bill_type = All_Bills | Purchases_Only | Sales_Only

type_synonym bill = "string \<times> string \<times> string \<times> string \<times> rat \<times> rat \<times> rat"

text \<open>
  \<^verbatim>\<open>FROM purchases p JOIN items i ON p.item_id = i.id WHERE p.bill_no LIKE ?
  ORDER BY p.date DESC, p.id DESC\<close>, and the same for sales.
\<close>

definition bill_rows :: "txn list \<Rightarrow> item list \<Rightarrow> string \<Rightarrow> (txn \<times> item) list" where
  "bill_rows tbl its search_term =
     rev (sort_key (\<lambda>(t, i). (date t, tid t))
       (filter (\<lambda>(t, i). like (''%'' @ search_term @ ''%'') (bill_no t))
          (inner_join tbl (\<lambda>t i. item_id t = iid i) its)))"

definition tag_bill :: "string \<Rightarrow> txn \<times> item \<Rightarrow> bill" where
  "tag_bill kind = (\<lambda>(t, i). (kind, bill_no t, date t, item_name i, quantity t, rate t, total t))"

definition bill_date :: "bill \<Rightarrow> string" where
  "bill_date = (\<lambda>(kind, b, d, rest). d)"

text \<open>
  \<^verbatim>\<open>list.sort(key=..., reverse=True)\<close>: descending and stable, elements with equal
  keys keep the order they had.
\<close>

definition sort_reverse :: "('a \<Rightarrow> 'k::linorder) \<Rightarrow> 'a list \<Rightarrow> 'a list" where
  "sort_reverse key xs = rev (sort_key key (rev xs))"

text \<open>The two lists \<^verbatim>\<open>purchases\<close> and \<^verbatim>\<open>sales\<close> that \<^verbatim>\<open>load_bills\<close> builds.\<close>

definition purchase_bills :: "db \<Rightarrow> bill_type \<Rightarrow> string \<Rightarrow> bill list" where
  "purchase_bills self bt search_term =
     (if bt = All_Bills \<or> bt = Purchases_Only
      then map (tag_bill ''P'') (bill_rows (purchases self) (items self) search_term)
      else [])"

definition sale_bills :: "db \<Rightarrow> bill_type \<Rightarrow> string \<Rightarrow> bill list" where
  "sale_bills self bt search_term =
     (if bt = All_Bills \<or> bt = Sales_Only
      then map (tag_bill ''S'') (bill_rows (sales self) (items self) search_term)
      else [])"

definition load_bills :: "db \<Rightarrow> bill_type \<Rightarrow> string \<Rightarrow> bill list" where
  "load_bills self bt search_term =
     (let all_bills = purchase_bills self bt search_term @ sale_bills self bt search_term
      in sort_reverse bill_date all_bills)"

section \<open>Bill numbers\<close>


definition is_digit :: "char \<Rightarrow> bool" where
  "is_digit c = (CHR ''0'' \<le> c \<and> c \<le> CHR ''9'')"

definition digit_val :: "char \<Rightarrow> nat" where
  "digit_val c = of_char c - 48"









section \<open>Sequences of calls\<close>

text \<open>
  A caller of \<^verbatim>\<open>DatabaseManager\<close> makes one mutating call after the other on the
  same connection; each call comes with the environment it meets.
\<close>

datatype call =
    Add_item string rat rat
  | Update_item int string rat rat
  | Delete_item int
  | Add_purchase string string int rat rat
  | Add_sale string string int rat rat

fun step :: "db \<Rightarrow> env \<times> call \<Rightarrow> db" where
  "step self (e, Add_item name pp sp) = snd (add_item self e name pp sp)"
| "step self (e, Update_item i name pp sp) = snd (update_item self i name pp sp)"
| "step self (e, Delete_item i) = snd (delete_item self e i)"
| "step self (e, Add_purchase b d i q r) = snd (add_purchase self e b d i q r)"
| "step self (e, Add_sale b d i q r) = snd (add_sale self e b d i q r)"

fun run :: "db \<Rightarrow> (env \<times> call) list \<Rightarrow> db" where
  "run self [] = self"
| "run self (c # cs) = run (step self c) cs"

text \<open>The quantities on record for an item, and the two properties of the stock.\<close>

definition purchased_qty :: "db \<Rightarrow> int \<Rightarrow> rat" where
  "purchased_qty self i = sum_list (map quantity (filter (\<lambda>p. item_id p = i) (purchases self)))"

definition sold_qty :: "db \<Rightarrow> int \<Rightarrow> rat" where
  "sold_qty self i = sum_list (map quantity (filter (\<lambda>s. item_id s = i) (sales self)))"

definition stock_consistent :: "db \<Rightarrow> bool" where
  "stock_consistent self =
     list_all (\<lambda>row. current_stock row = purchased_qty self (iid row) - sold_qty self (iid row))
       (items self)"



text \<open>Every purchase of the sequence names an item that exists when the call is made.\<close>

fun purchases_of_items :: "db \<Rightarrow> (env \<times> call) list \<Rightarrow> bool" where
  "purchases_of_items self [] = True"
| "purchases_of_items self ((e, Add_purchase b d i q r) # cs) =
     (list_ex (\<lambda>row. iid row = i) (items self) \<and>
      purchases_of_items (step self (e, Add_purchase b d i q r)) cs)"
| "purchases_of_items self (c # cs) = purchases_of_items (step self c) cs"

text \<open>
  Ids handed out so far bound the ids in use: the item rows and the item references of
  the purchase and sale rows.
\<close>

definition ids_allocated :: "db \<Rightarrow> bool" where
  "ids_allocated self =
     (list_all (\<lambda>row. iid row \<le> seq_items self) (items self) \<and>
      list_all (\<lambda>p. item_id p \<le> seq_items self) (purchases self) \<and>
      list_all (\<lambda>s. item_id s \<le> seq_items self) (sales self))"


section \<open>Example states\<close>

definition at_10h :: env where
  "at_10h = \<lparr>now = ''2024-01-01 10:00:00'', fault = None\<rparr>"

definition at_11h :: env where
  "at_11h = \<lparr>now = ''2024-01-01 11:00:00'', fault = None\<rparr>"

text \<open>The item Bolt after one purchase of 10 at rate 5.\<close>

definition bolt :: item where
  "bolt = \<lparr>iid = 1, item_name = ''Bolt'', current_stock = 10, purchase_price = 5,
           sale_price = 15, created_at = ''2024-01-01 10:00:00''\<rparr>"

definition bolt_db :: db where
  "bolt_db =
     \<lparr>items = [bolt],
      purchases = [\<lparr>tid = 1, bill_no = ''P0001'', date = ''2024-01-01'', item_id = 1,
                    quantity = 10, rate = 5, total = 50,
                    txn_created_at = ''2024-01-01 10:00:00''\<rparr>],
      sales = [],
      stock_log = [\<lparr>lid = 1, log_item_id = 1, change_qty = 10, log_type = ''purchase'',
                    log_date = ''2024-01-01'', log_bill_no = ''P0001'',
                    log_created_at = ''2024-01-01 10:00:00''\<rparr>],
      seq_items = 1, seq_purchases = 1, seq_sales = 0, seq_stock_log = 1\<rparr>"

text \<open>The item Bolt right after it was added.\<close>

definition bolt_added :: db where
  "bolt_added = snd (add_item create_tables at_10h ''Bolt'' 10 15)"

definition bolt_calls :: "(env \<times> call) list" where
  "bolt_calls =
     [(at_10h, Add_item ''Bolt'' 10 15),
      (at_10h, Add_purchase ''P0001'' ''2024-01-01'' 1 10 5)]"


text \<open>Bolt after one purchase of 10 and two sales, of 3 and of 4.\<close>

definition two_sales_calls :: "(env \<times> call) list" where
  "two_sales_calls =
     bolt_calls @
     [(at_11h, Add_sale ''S0001'' ''2024-01-02'' 1 3 8),
      (at_11h, Add_sale ''S0002'' ''2024-01-02'' 1 4 8)]"

text \<open>Bolt after a purchase and, an hour later, a sale with the same bill date.\<close>

definition same_day_calls :: "(env \<times> call) list" where
  "same_day_calls = bolt_calls @ [(at_11h, Add_sale ''S0001'' ''2024-01-01'' 1 3 8)]"

section \<open>Facts about the ledger operations\<close>



lemma map_purchase_update_absent:
  "\<not> list_ex (\<lambda>row. iid row = i) xs \<Longrightarrow> map (purchase_update i q r) xs = xs"
  by (induction xs) (simp_all add: purchase_update_def)

lemma insert_purchase_fields:
  "items (insert_purchase self e b d i q r t) = items self"
  "sales (insert_purchase self e b d i q r t) = sales self"
  "stock_log (insert_purchase self e b d i q r t) = stock_log self"
  "seq_items (insert_purchase self e b d i q r t) = seq_items self"
  "seq_sales (insert_purchase self e b d i q r t) = seq_sales self"
  "seq_stock_log (insert_purchase self e b d i q r t) = seq_stock_log self"
  "purchases (insert_purchase self e b d i q r t) = purchases self @
     [\<lparr>tid = next_rowid (seq_purchases self) (map tid (purchases self)), bill_no = b,
       date = d, item_id = i, quantity = q, rate = r, total = t, txn_created_at = now e\<rparr>]"
  by (simp_all add: insert_purchase_def Let_def)

lemma insert_sale_fields:
  "items (insert_sale self e b d i q r t) = items self"
  "purchases (insert_sale self e b d i q r t) = purchases self"
  "stock_log (insert_sale self e b d i q r t) = stock_log self"
  "seq_items (insert_sale self e b d i q r t) = seq_items self"
  "seq_purchases (insert_sale self e b d i q r t) = seq_purchases self"
  "seq_stock_log (insert_sale self e b d i q r t) = seq_stock_log self"
  "sales (insert_sale self e b d i q r t) = sales self @
     [\<lparr>tid = next_rowid (seq_sales self) (map tid (sales self)), bill_no = b,
       date = d, item_id = i, quantity = q, rate = r, total = t, txn_created_at = now e\<rparr>]"
  by (simp_all add: insert_sale_def Let_def)

lemma insert_stock_log_fields:
  "items (insert_stock_log self e i c ty d b) = items self"
  "purchases (insert_stock_log self e i c ty d b) = purchases self"
  "sales (insert_stock_log self e i c ty d b) = sales self"
  "seq_items (insert_stock_log self e i c ty d b) = seq_items self"
  "seq_purchases (insert_stock_log self e i c ty d b) = seq_purchases self"
  "seq_sales (insert_stock_log self e i c ty d b) = seq_sales self"
  "stock_log (insert_stock_log self e i c ty d b) = stock_log self @
     [\<lparr>lid = next_rowid (seq_stock_log self) (map lid (stock_log self)), log_item_id = i,
       change_qty = c, log_type = ty, log_date = d, log_bill_no = b, log_created_at = now e\<rparr>]"
  by (simp_all add: insert_stock_log_def Let_def)

text \<open>The three ways a purchase can go, by the statement that raises.\<close>

lemma add_purchase_commit:
  "fault e = None \<Longrightarrow>
   add_purchase self e b d i q r =
     (True, insert_stock_log
        ((insert_purchase self e b d i q r (q * r))
           \<lparr>items := map (purchase_update i q r) (items self)\<rparr>) e i q ''purchase'' d b)"
  by (simp add: add_purchase_def raises_def Let_def insert_purchase_fields)

lemma add_purchase_rollback:
  "fault e = Some k \<Longrightarrow> k \<le> 4 \<Longrightarrow> add_purchase self e b d i q r = (False, self)"
  by (cases "k = 0"; cases "k = 1"; cases "k = 2"; cases "k = 3"; cases "k = 4")
     (simp_all add: add_purchase_def raises_def Let_def)

lemma add_purchase_unreached:
  "fault e = Some k \<Longrightarrow> 4 < k \<Longrightarrow>
   add_purchase self e b d i q r =
     (True, insert_stock_log
        ((insert_purchase self e b d i q r (q * r))
           \<lparr>items := map (purchase_update i q r) (items self)\<rparr>) e i q ''purchase'' d b)"
  by (simp add: add_purchase_def raises_def Let_def insert_purchase_fields)

lemma add_purchase_cases:
  "add_purchase self e b d i q r = (False, self) \<and>
     (case fault e of None \<Rightarrow> False | Some k \<Rightarrow> k \<le> 4) \<or>
   add_purchase self e b d i q r =
     (True, insert_stock_log
        ((insert_purchase self e b d i q r (q * r))
           \<lparr>items := map (purchase_update i q r) (items self)\<rparr>) e i q ''purchase'' d b) \<and>
     (case fault e of None \<Rightarrow> True | Some k \<Rightarrow> 4 < k)"
proof (cases "fault e")
  case None
  then show ?thesis by (simp add: add_purchase_commit)
next
  case (Some k)
  show ?thesis
  proof (cases "k \<le> 4")
    case True
    with Some show ?thesis by (simp add: add_purchase_rollback)
  next
    case False
    with Some show ?thesis by (simp add: add_purchase_unreached)
  qed
qed


text \<open>
  C1: a sale of an existing item for more than its stock fails, reports the available
  quantity (when the transaction could be opened and the stock read), and leaves the
  whole database as it was: no sale row, no log row, no change of stock.
\<close>

theorem add_sale_insufficient_stock:
  "find (\<lambda>row. iid row = i) (items self) = Some it \<Longrightarrow> current_stock it < q \<Longrightarrow>
     snd (add_sale self e b d i q r) = self \<and>
     \<not> fst (fst (add_sale self e b d i q r)) \<and>
     (\<not> raises e 0 \<and> \<not> raises e 1 \<longrightarrow>
        snd (fst (add_sale self e b d i q r)) = Insufficient_stock (current_stock it))"
  by (simp add: add_sale_def)

theorem add_sale_insufficient_stock_witness:
  "find (\<lambda>row. iid row = 1) (items bolt_db) = Some bolt \<and> current_stock bolt < 15 \<and>
   add_sale bolt_db at_11h ''S0001'' ''2024-01-02'' 1 15 8
     = ((False, Insufficient_stock 10), bolt_db)"
proof -
  have f: "find (\<lambda>row. iid row = 1) (items bolt_db) = Some bolt"
    by (simp add: bolt_db_def bolt_def)
  have l: "current_stock bolt < 15" by (simp add: bolt_def)
  have n: "\<not> raises at_11h 0 \<and> \<not> raises at_11h 1" by (simp add: raises_def at_11h_def)
  have c: "current_stock bolt = 10" by (simp add: bolt_def)
  from add_sale_insufficient_stock[OF f l, of at_11h "''S0001''" "''2024-01-02''" 8] n c
  have "add_sale bolt_db at_11h ''S0001'' ''2024-01-02'' 1 15 8
     = ((False, Insufficient_stock 10), bolt_db)"
    by (cases "add_sale bolt_db at_11h ''S0001'' ''2024-01-02'' 1 15 8") auto
  with f l show ?thesis by simp
qed



text \<open>
  C3: \<^verbatim>\<open>add_purchase\<close> is all-or-nothing. It succeeds exactly when none of its five
  statements raises. On success the purchase table gains one row with
  total = quantity * rate, the stock of the item grows by the quantity and its purchase
  price becomes the rate, the stock log gains one entry (item, +quantity, purchase, date,
  bill number), and nothing else changes. On failure the database is the one the call
  started from.
\<close>

theorem add_purchase_all_or_nothing:
  "add_purchase self e b d i q r = (ok, self') \<Longrightarrow>
     (ok \<longleftrightarrow> (case fault e of None \<Rightarrow> True | Some k \<Rightarrow> 4 < k)) \<and>
     (ok \<longrightarrow>
        purchases self' = purchases self @
          [\<lparr>tid = next_rowid (seq_purchases self) (map tid (purchases self)), bill_no = b,
            date = d, item_id = i, quantity = q, rate = r, total = q * r,
            txn_created_at = now e\<rparr>] \<and>
        items self' =
          map (\<lambda>row. if iid row = i
                      then row\<lparr>current_stock := current_stock row + q, purchase_price := r\<rparr>
                      else row) (items self) \<and>
        stock_log self' = stock_log self @
          [\<lparr>lid = next_rowid (seq_stock_log self) (map lid (stock_log self)), log_item_id = i,
            change_qty = q, log_type = ''purchase'', log_date = d, log_bill_no = b,
            log_created_at = now e\<rparr>] \<and>
        sales self' = sales self) \<and>
     (\<not> ok \<longrightarrow> self' = self)"
proof -
  assume res: "add_purchase self e b d i q r = (ok, self')"
  have upd: "purchase_update i q r =
      (\<lambda>row. if iid row = i
              then row\<lparr>current_stock := current_stock row + q, purchase_price := r\<rparr>
              else row)"
    by (rule ext) (simp add: purchase_update_def)
  from add_purchase_cases[of self e b d i q r] show ?thesis
  proof (elim disjE conjE)
    assume "add_purchase self e b d i q r = (False, self)"
      and "case fault e of None \<Rightarrow> False | Some k \<Rightarrow> k \<le> 4"
    with res show ?thesis by (auto split: option.splits)
  next
    assume c: "add_purchase self e b d i q r =
       (True, insert_stock_log
        ((insert_purchase self e b d i q r (q * r))
           \<lparr>items := map (purchase_update i q r) (items self)\<rparr>) e i q ''purchase'' d b)"
      and f: "case fault e of None \<Rightarrow> True | Some k \<Rightarrow> 4 < k"
    from res c have ok: "ok" and s: "self' = insert_stock_log
        ((insert_purchase self e b d i q r (q * r))
           \<lparr>items := map (purchase_update i q r) (items self)\<rparr>) e i q ''purchase'' d b"
      by simp_all
    show ?thesis
      unfolding s using ok f
      by (simp add: insert_stock_log_fields insert_purchase_fields upd)
  qed
qed

theorem add_purchase_all_or_nothing_witness:
  "add_purchase bolt_db at_11h ''P0002'' ''2024-01-03'' 1 4 6 =
     (True, snd (add_purchase bolt_db at_11h ''P0002'' ''2024-01-03'' 1 4 6)) \<and>
   map current_stock (items (snd (add_purchase bolt_db at_11h ''P0002'' ''2024-01-03'' 1 4 6))) = [14] \<and>
   map purchase_price (items (snd (add_purchase bolt_db at_11h ''P0002'' ''2024-01-03'' 1 4 6))) = [6] \<and>
   map total (purchases (snd (add_purchase bolt_db at_11h ''P0002'' ''2024-01-03'' 1 4 6))) = [50, 24] \<and>
   add_purchase bolt_db (at_11h\<lparr>fault := Some 3\<rparr>) ''P0002'' ''2024-01-03'' 1 4 6 = (False, bolt_db)"
proof -
  have a: "add_purchase bolt_db at_11h ''P0002'' ''2024-01-03'' 1 4 6 =
     (True, snd (add_purchase bolt_db at_11h ''P0002'' ''2024-01-03'' 1 4 6))"
    by (simp add: add_purchase_def raises_def at_11h_def Let_def)
  have b: "add_purchase bolt_db (at_11h\<lparr>fault := Some 3\<rparr>) ''P0002'' ''2024-01-03'' 1 4 6 = (False, bolt_db)"
    by (simp add: add_purchase_def raises_def at_11h_def Let_def)
  from add_purchase_all_or_nothing[OF a]
  have "items (snd (add_purchase bolt_db at_11h ''P0002'' ''2024-01-03'' 1 4 6)) =
          map (\<lambda>row. if iid row = 1
                      then row\<lparr>current_stock := current_stock row + 4, purchase_price := 6\<rparr>
                      else row) (items bolt_db)"
    and "purchases (snd (add_purchase bolt_db at_11h ''P0002'' ''2024-01-03'' 1 4 6)) = purchases bolt_db @
          [\<lparr>tid = next_rowid (seq_purchases bolt_db) (map tid (purchases bolt_db)), bill_no = ''P0002'',
            date = ''2024-01-03'', item_id = 1, quantity = 4, rate = 6, total = 4 * 6,
            txn_created_at = now at_11h\<rparr>]"
    by simp_all
  then have "map current_stock (items (snd (add_purchase bolt_db at_11h ''P0002'' ''2024-01-03'' 1 4 6))) = [14]"
    and "map purchase_price (items (snd (add_purchase bolt_db at_11h ''P0002'' ''2024-01-03'' 1 4 6))) = [6]"
    and "map total (purchases (snd (add_purchase bolt_db at_11h ''P0002'' ''2024-01-03'' 1 4 6))) = [50, 24]"
    by (simp_all add: bolt_db_def bolt_def)
  with a b show ?thesis by simp
qed

text \<open>
  C10: a purchase for an item id that is in no row of the item table still succeeds, when
  no statement raises: the foreign keys of the schema are declared but not enforced on the
  connection. The purchase row and the log entry carry the missing id, and the item table
  is untouched.
\<close>

theorem add_purchase_missing_item:
  assumes "\<not> list_ex (\<lambda>row. iid row = i) (items self)" and "fault e = None"
  shows "fst (add_purchase self e b d i q r) \<and>
     items (snd (add_purchase self e b d i q r)) = items self \<and>
     purchases (snd (add_purchase self e b d i q r)) = purchases self @
       [\<lparr>tid = next_rowid (seq_purchases self) (map tid (purchases self)), bill_no = b,
         date = d, item_id = i, quantity = q, rate = r, total = q * r,
         txn_created_at = now e\<rparr>] \<and>
     stock_log (snd (add_purchase self e b d i q r)) = stock_log self @
       [\<lparr>lid = next_rowid (seq_stock_log self) (map lid (stock_log self)), log_item_id = i,
         change_qty = q, log_type = ''purchase'', log_date = d, log_bill_no = b,
         log_created_at = now e\<rparr>]"
  unfolding add_purchase_commit[OF assms(2)]
  by (simp add: insert_stock_log_fields insert_purchase_fields
      map_purchase_update_absent[OF assms(1)])

theorem add_purchase_missing_item_witness:
  "\<not> list_ex (\<lambda>row. iid row = 7) (items bolt_db) \<and> fault at_11h = None \<and>
   fst (add_purchase bolt_db at_11h ''P0002'' ''2024-01-03'' 7 4 6) \<and>
   items (snd (add_purchase bolt_db at_11h ''P0002'' ''2024-01-03'' 7 4 6)) = [bolt] \<and>
   map item_id (purchases (snd (add_purchase bolt_db at_11h ''P0002'' ''2024-01-03'' 7 4 6))) = [1, 7] \<and>
   map log_item_id (stock_log (snd (add_purchase bolt_db at_11h ''P0002'' ''2024-01-03'' 7 4 6))) = [1, 7]"
proof -
  have m: "\<not> list_ex (\<lambda>row. iid row = 7) (items bolt_db)"
    by (simp add: bolt_db_def bolt_def)
  have n: "fault at_11h = None" by (simp add: at_11h_def)
  from add_purchase_missing_item[OF m n, of "''P0002''" "''2024-01-03''" 4 6] m n
  show ?thesis by (simp add: bolt_db_def)
qed

text \<open>
  C7: when no statement raises, \<^verbatim>\<open>delete_item\<close> succeeds if and only if no purchase
  row and no sale row refers to the item. A successful call removes the item rows with
  the id and nothing else. When a purchase or sale row refers to the item, the call
  returns False and the database is unchanged, whatever raises.
\<close>

theorem delete_item_only_without_records:
  "(fault e = None \<longrightarrow>
      (fst (delete_item self e i) \<longleftrightarrow>
         filter (\<lambda>p. item_id p = i) (purchases self) = [] \<and>
         filter (\<lambda>s. item_id s = i) (sales self) = [])) \<and>
   (fst (delete_item self e i) \<longrightarrow>
      snd (delete_item self e i) = self\<lparr>items := filter (\<lambda>row. iid row \<noteq> i) (items self)\<rparr> \<and>
      \<not> list_ex (\<lambda>row. iid row = i) (items (snd (delete_item self e i)))) \<and>
   (filter (\<lambda>p. item_id p = i) (purchases self) \<noteq> [] \<or>
    filter (\<lambda>s. item_id s = i) (sales self) \<noteq> [] \<longrightarrow>
      delete_item self e i = (False, self))"
  by (simp add: delete_item_def raises_def Let_def list_ex_iff)

theorem delete_item_only_without_records_witness:
  "fault at_11h = None \<and>
   filter (\<lambda>p. item_id p = 1) (purchases bolt_db) \<noteq> [] \<and>
   delete_item bolt_db at_11h 1 = (False, bolt_db) \<and>
   filter (\<lambda>p. item_id p = 1) (purchases bolt_added) = [] \<and>
   filter (\<lambda>s. item_id s = 1) (sales bolt_added) = [] \<and>
   map iid (items bolt_added) = [1] \<and>
   fst (delete_item bolt_added at_11h 1) \<and>
   items (snd (delete_item bolt_added at_11h 1)) = []"
proof -
  have n: "fault at_11h = None" by (simp add: at_11h_def)
  have p: "filter (\<lambda>p. item_id p = 1) (purchases bolt_db) \<noteq> []" by (simp add: bolt_db_def)
  have q: "filter (\<lambda>p. item_id p = 1) (purchases bolt_added) = []"
    "filter (\<lambda>s. item_id s = 1) (sales bolt_added) = []"
    by (simp_all add: bolt_added_def add_item_def create_tables_def Let_def)
  have i: "map iid (items bolt_added) = [1]"
    by (simp add: bolt_added_def add_item_def create_tables_def Let_def next_rowid_def)
  from delete_item_only_without_records[of at_11h bolt_db 1] p
  have 1: "delete_item bolt_db at_11h 1 = (False, bolt_db)" by simp
  from delete_item_only_without_records[of at_11h bolt_added 1] n q
  have 2: "fst (delete_item bolt_added at_11h 1)"
    and 3: "snd (delete_item bolt_added at_11h 1) =
       bolt_added\<lparr>items := filter (\<lambda>row. iid row \<noteq> 1) (items bolt_added)\<rparr>"
    by simp_all
  from 3 have "items (snd (delete_item bolt_added at_11h 1)) =
      filter (\<lambda>row. iid row \<noteq> 1) (items bolt_added)"
    by simp
  with i have 4: "items (snd (delete_item bolt_added at_11h 1)) = []"
    by (cases "items bolt_added") auto
  from n p q i 1 2 4 show ?thesis by simp
qed

section \<open>Invariants of the item table\<close>

lemma fold_max_bounds:
  "seq \<le> fold max ids seq \<and> (\<forall>x\<in>set ids. x \<le> fold max ids (seq::int))"
proof (induction ids arbitrary: seq)
  case Nil
  show ?case by simp
next
  case (Cons a ids)
  from Cons.IH[of "max a seq"] show ?case by auto
qed

lemma next_rowid_above_seq: "seq < next_rowid seq ids"
  using fold_max_bounds[of seq ids] by (simp add: next_rowid_def)


lemma iid_purchase_update: "iid (purchase_update i q r row) = iid row"
  by (simp add: purchase_update_def)

lemma iid_sale_update: "iid (sale_update i q r row) = iid row"
  by (simp add: sale_update_def)

lemma item_update_fields:
  "iid (item_update i name pp sp row) = iid row"
  "current_stock (item_update i name pp sp row) = current_stock row"
  by (simp_all add: item_update_def)















section \<open>The stock against the recorded quantities\<close>

lemma add_item_result:
  "snd (add_item self e name pp sp) = self \<or>
   snd (add_item self e name pp sp) =
     self\<lparr>items := items self @
            [\<lparr>iid = next_rowid (seq_items self) (map iid (items self)), item_name = name,
              current_stock = 0, purchase_price = pp, sale_price = sp, created_at = now e\<rparr>],
          seq_items := next_rowid (seq_items self) (map iid (items self))\<rparr>"
  by (simp add: add_item_def Let_def)

lemma update_item_result:
  "snd (update_item self i name pp sp) = self \<or>
   snd (update_item self i name pp sp) =
     self\<lparr>items := map (item_update i name pp sp) (items self)\<rparr>"
  by (simp add: update_item_def)

lemma delete_item_result:
  "snd (delete_item self e i) = self \<or>
   snd (delete_item self e i) = self\<lparr>items := filter (\<lambda>r. iid r \<noteq> i) (items self)\<rparr>"
  by (simp add: delete_item_def Let_def)

lemma add_purchase_result:
  "snd (add_purchase self e b d i q r) = self \<or>
   snd (add_purchase self e b d i q r) =
     insert_stock_log
        ((insert_purchase self e b d i q r (q * r))
           \<lparr>items := map (purchase_update i q r) (items self)\<rparr>) e i q ''purchase'' d b"
  using add_purchase_cases[of self e b d i q r] by auto

lemma add_sale_result:
  "snd (add_sale self e b d i q r) = self \<or>
   (\<exists>it. find (\<lambda>row. iid row = i) (items self) = Some it \<and>
     snd (add_sale self e b d i q r) =
       insert_stock_log
         ((insert_sale self e b d i q r (q * r))
            \<lparr>items := map (sale_update i q r) (items self)\<rparr>) e i (- q) ''sale'' d b)"
  by (simp add: add_sale_def Let_def insert_sale_fields split: option.splits)

lemma find_Some_mem: "find P xs = Some x \<Longrightarrow> x \<in> set xs \<and> P x"
  by (induction xs) (simp_all split: if_splits)

lemma qty_after_purchase:
  "purchased_qty (insert_stock_log ((insert_purchase self e b d i q r t)\<lparr>items := xs\<rparr>) e' i' c ty d' b') j
     = purchased_qty self j + (if i = j then q else 0)"
  "sold_qty (insert_stock_log ((insert_purchase self e b d i q r t)\<lparr>items := xs\<rparr>) e' i' c ty d' b') j
     = sold_qty self j"
  by (simp_all add: purchased_qty_def sold_qty_def insert_stock_log_fields insert_purchase_fields)

lemma qty_after_sale:
  "purchased_qty (insert_stock_log ((insert_sale self e b d i q r t)\<lparr>items := xs\<rparr>) e' i' c ty d' b') j
     = purchased_qty self j"
  "sold_qty (insert_stock_log ((insert_sale self e b d i q r t)\<lparr>items := xs\<rparr>) e' i' c ty d' b') j
     = sold_qty self j + (if i = j then q else 0)"
  by (simp_all add: purchased_qty_def sold_qty_def insert_stock_log_fields insert_sale_fields)

lemma qty_items_update:
  "purchased_qty (self\<lparr>items := xs\<rparr>) j = purchased_qty self j"
  "sold_qty (self\<lparr>items := xs\<rparr>) j = sold_qty self j"
  "purchased_qty (self\<lparr>items := xs, seq_items := n\<rparr>) j = purchased_qty self j"
  "sold_qty (self\<lparr>items := xs, seq_items := n\<rparr>) j = sold_qty self j"
  by (simp_all add: purchased_qty_def sold_qty_def)

lemma qty_unreferenced:
  "list_all (\<lambda>p. item_id p \<le> n) (purchases self) \<Longrightarrow> n < j \<Longrightarrow> purchased_qty self j = 0"
  "list_all (\<lambda>s. item_id s \<le> n) (sales self) \<Longrightarrow> n < j \<Longrightarrow> sold_qty self j = 0"
proof -
  show "purchased_qty self j = 0"
    if "list_all (\<lambda>p. item_id p \<le> n) (purchases self)" "n < j"
  proof -
    from that have "filter (\<lambda>p. item_id p = j) (purchases self) = []"
      by (auto simp: list_all_iff filter_empty_conv)
    then show ?thesis by (simp add: purchased_qty_def)
  qed
  show "sold_qty self j = 0"
    if "list_all (\<lambda>s. item_id s \<le> n) (sales self)" "n < j"
  proof -
    from that have "filter (\<lambda>s. item_id s = j) (sales self) = []"
      by (auto simp: list_all_iff filter_empty_conv)
    then show ?thesis by (simp add: sold_qty_def)
  qed
qed

lemma add_item_consistent:
  assumes "stock_consistent self" and "ids_allocated self"
  shows "stock_consistent (snd (add_item self e name pp sp)) \<and>
         ids_allocated (snd (add_item self e name pp sp))"
proof -
  let ?new = "next_rowid (seq_items self) (map iid (items self))"
  let ?row = "\<lparr>iid = ?new, item_name = name, current_stock = 0, purchase_price = pp,
               sale_price = sp, created_at = now e\<rparr>"
  have above: "seq_items self < ?new" by (rule next_rowid_above_seq)
  from assms(2) have p: "list_all (\<lambda>p. item_id p \<le> seq_items self) (purchases self)"
    and s: "list_all (\<lambda>s. item_id s \<le> seq_items self) (sales self)"
    and i: "list_all (\<lambda>row. iid row \<le> seq_items self) (items self)"
    by (simp_all add: ids_allocated_def)
  have zero: "purchased_qty self ?new = 0" "sold_qty self ?new = 0"
    using qty_unreferenced(1)[OF p above] qty_unreferenced(2)[OF s above] by simp_all
  have c: "stock_consistent (self\<lparr>items := items self @ [?row], seq_items := ?new\<rparr>)"
    using assms(1) zero by (simp add: stock_consistent_def qty_items_update)
  have a: "ids_allocated (self\<lparr>items := items self @ [?row], seq_items := ?new\<rparr>)"
    using p s i above by (auto simp: ids_allocated_def list_all_iff)
  from add_item_result[of self e name pp sp] assms c a show ?thesis by auto
qed

lemma update_item_consistent:
  assumes "stock_consistent self" and "ids_allocated self"
  shows "stock_consistent (snd (update_item self i name pp sp)) \<and>
         ids_allocated (snd (update_item self i name pp sp))"
proof -
  have c: "stock_consistent (self\<lparr>items := map (item_update i name pp sp) (items self)\<rparr>)"
    using assms(1)
    by (simp add: stock_consistent_def qty_items_update list_all_iff item_update_fields)
  have a: "ids_allocated (self\<lparr>items := map (item_update i name pp sp) (items self)\<rparr>)"
    using assms(2) by (simp add: ids_allocated_def list_all_iff item_update_fields)
  from update_item_result[of self i name pp sp] assms c a show ?thesis by auto
qed

lemma delete_item_consistent:
  assumes "stock_consistent self" and "ids_allocated self"
  shows "stock_consistent (snd (delete_item self e i)) \<and>
         ids_allocated (snd (delete_item self e i))"
proof -
  have c: "stock_consistent (self\<lparr>items := filter (\<lambda>r. iid r \<noteq> i) (items self)\<rparr>)"
    using assms(1) by (simp add: stock_consistent_def qty_items_update list_all_iff)
  have a: "ids_allocated (self\<lparr>items := filter (\<lambda>r. iid r \<noteq> i) (items self)\<rparr>)"
    using assms(2) by (simp add: ids_allocated_def list_all_iff)
  from delete_item_result[of self e i] assms c a show ?thesis by auto
qed

lemma add_purchase_consistent:
  assumes "stock_consistent self" and "ids_allocated self"
    and "list_ex (\<lambda>row. iid row = i) (items self)"
  shows "stock_consistent (snd (add_purchase self e b d i q r)) \<and>
         ids_allocated (snd (add_purchase self e b d i q r))"
proof -
  let ?s = "insert_stock_log
        ((insert_purchase self e b d i q r (q * r))
           \<lparr>items := map (purchase_update i q r) (items self)\<rparr>) e i q ''purchase'' d b"
  from assms(2,3) have le: "i \<le> seq_items self"
    by (auto simp: ids_allocated_def list_all_iff list_ex_iff)
  have row: "current_stock (purchase_update i q r row) =
      purchased_qty ?s (iid row) - sold_qty ?s (iid row)" if "row \<in> set (items self)" for row
  proof -
    from assms(1) that
    have "current_stock row = purchased_qty self (iid row) - sold_qty self (iid row)"
      by (simp add: stock_consistent_def list_all_iff)
    then show ?thesis
      by (cases "iid row = i") (simp_all add: purchase_update_def qty_after_purchase)
  qed
  have c: "stock_consistent ?s"
    by (simp add: stock_consistent_def insert_stock_log_fields list_all_iff row
        iid_purchase_update)
  have a: "ids_allocated ?s"
    using assms(2) le
    by (simp add: ids_allocated_def insert_stock_log_fields insert_purchase_fields list_all_iff
        iid_purchase_update)
  from add_purchase_result[of self e b d i q r] assms c a show ?thesis by auto
qed

lemma add_sale_consistent:
  assumes "stock_consistent self" and "ids_allocated self"
  shows "stock_consistent (snd (add_sale self e b d i q r)) \<and>
         ids_allocated (snd (add_sale self e b d i q r))"
proof -
  let ?s = "insert_stock_log
         ((insert_sale self e b d i q r (q * r))
            \<lparr>items := map (sale_update i q r) (items self)\<rparr>) e i (- q) ''sale'' d b"
  from add_sale_result[of self e b d i q r] show ?thesis
  proof
    assume "snd (add_sale self e b d i q r) = self"
    with assms show ?thesis by simp
  next
    assume "\<exists>it. find (\<lambda>row. iid row = i) (items self) = Some it \<and>
      snd (add_sale self e b d i q r) = ?s"
    then obtain it where f: "find (\<lambda>row. iid row = i) (items self) = Some it"
      and r: "snd (add_sale self e b d i q r) = ?s" by blast
    from find_Some_mem[OF f] assms(2) have le: "i \<le> seq_items self"
      by (auto simp: ids_allocated_def list_all_iff)
    have row: "current_stock (sale_update i q r row) =
        purchased_qty ?s (iid row) - sold_qty ?s (iid row)" if "row \<in> set (items self)" for row
    proof -
      from assms(1) that
      have "current_stock row = purchased_qty self (iid row) - sold_qty self (iid row)"
        by (simp add: stock_consistent_def list_all_iff)
      then show ?thesis
        by (cases "iid row = i") (simp_all add: sale_update_def qty_after_sale)
    qed
    have c: "stock_consistent ?s"
      by (simp add: stock_consistent_def insert_stock_log_fields list_all_iff row
          iid_sale_update)
    have a: "ids_allocated ?s"
      using assms(2) le
      by (simp add: ids_allocated_def insert_stock_log_fields insert_sale_fields list_all_iff
          iid_sale_update)
    from r c a show ?thesis by simp
  qed
qed

text \<open>
  Over a sequence of calls in which every purchase names an existing item, each item's
  stock stays the sum of its purchase quantities minus the sum of its sale quantities.
\<close>

lemma run_stock_consistent:
  "stock_consistent self \<Longrightarrow> ids_allocated self \<Longrightarrow> purchases_of_items self cs \<Longrightarrow>
   stock_consistent (run self cs) \<and> ids_allocated (run self cs)"
proof (induction cs arbitrary: self)
  case Nil
  then show ?case by simp
next
  case (Cons c cs)
  obtain e op where c: "c = (e, op)" by (cases c)
  have "stock_consistent (step self c) \<and> ids_allocated (step self c) \<and>
        purchases_of_items (step self c) cs"
  proof (cases op)
    case (Add_item name pp sp)
    with Cons.prems c add_item_consistent[of self e name pp sp] show ?thesis by simp
  next
    case (Update_item i name pp sp)
    with Cons.prems c update_item_consistent[of self i name pp sp] show ?thesis by simp
  next
    case (Delete_item i)
    with Cons.prems c delete_item_consistent[of self e i] show ?thesis by simp
  next
    case (Add_purchase b d i q r)
    with Cons.prems c add_purchase_consistent[of self i e b d q r] show ?thesis by simp
  next
    case (Add_sale b d i q r)
    with Cons.prems c add_sale_consistent[of self e b d i q r] show ?thesis by simp
  qed
  with Cons.IH[of "step self c"] show ?case by simp
qed

lemma stock_consistent_from_fresh:
  "purchases_of_items create_tables cs \<Longrightarrow> stock_consistent (run create_tables cs)"
proof -
  assume v: "purchases_of_items create_tables cs"
  have "stock_consistent create_tables" "ids_allocated create_tables"
    by (simp_all add: stock_consistent_def ids_allocated_def create_tables_def)
  with v run_stock_consistent show ?thesis by blast
qed


section \<open>The item listing\<close>

text \<open>
  C4: the listing is meant to give, for each item, the sum of the quantities of its
  purchase rows and the sum of the quantities of its sale rows. The query joins both
  tables to the item before it sums, so each purchase row is counted once per sale row of
  the item and each sale row once per purchase row: with one purchase of 10 and two sales,
  of 3 and of 4, the purchased quantity comes out as 20.
\<close>

theorem get_all_items_counts_purchase_per_sale:
  "get_all_items (run create_tables two_sales_calls) =
     [(1, ''Bolt'', 20, 7, 3, 5, 8, ''2024-01-01 10:00:00'')] \<and>
   search_items (run create_tables two_sales_calls) ''bolt'' =
     [(1, ''Bolt'', 20, 7, 3, 5, 8, ''2024-01-01 10:00:00'')] \<and>
   purchased_qty (run create_tables two_sales_calls) 1 = 10 \<and>
   sold_qty (run create_tables two_sales_calls) 1 = 7"
  by code_simp

section \<open>Facts about bill numbers\<close>


lemma digit_char [simp]:
  "d < 10 \<Longrightarrow> is_digit (char_of (48 + d))"
  "d < 10 \<Longrightarrow> digit_val (char_of (48 + d)) = d"
  by (simp_all add: is_digit_def digit_val_def less_eq_char_def)



















section \<open>The order of the bill listing\<close>

lemma sort_reverse_descending: "sorted (rev (map key (sort_reverse key xs)))"
  by (simp add: sort_reverse_def rev_map)

lemma sort_reverse_stable:
  "filter (\<lambda>x. key x = k) (sort_reverse key xs) = filter (\<lambda>x. key x = k) xs"
proof -
  have "filter (\<lambda>x. key x = k) (sort_reverse key xs) =
        rev (filter (\<lambda>x. key x = k) (sort_key key (rev xs)))"
    by (simp add: sort_reverse_def rev_filter)
  also have "\<dots> = rev (filter (\<lambda>x. key x = k) (rev xs))"
    by (simp only: sort_key_stable)
  also have "\<dots> = filter (\<lambda>x. key x = k) xs"
    by (simp add: rev_filter)
  finally show ?thesis .
qed

lemma mset_sort_reverse: "mset (sort_reverse key xs) = mset xs"
  by (simp add: sort_reverse_def)

lemma set_inner_join:
  "set (inner_join rows on tbl) = {(r, x). r \<in> set rows \<and> x \<in> set tbl \<and> on r x}"
  by (auto simp: inner_join_def)

lemma set_bill_rows:
  "set (bill_rows tbl its t) =
     {(p, i). p \<in> set tbl \<and> i \<in> set its \<and> item_id p = iid i \<and>
              like (''%'' @ t @ ''%'') (bill_no p)}"
  by (auto simp: bill_rows_def set_inner_join)

lemma bill_rows_descending:
  "sorted (rev (map (\<lambda>(p, i). (date p, tid p)) (bill_rows tbl its t)))"
  by (simp add: bill_rows_def rev_map)

text \<open>
  C6, as stated: a purchase and a sale of the same date, the sale recorded an hour after
  the purchase. The listing shows the purchase first, not the row inserted last. A
  purchase whose item does not exist is not listed at all.
\<close>

theorem load_bills_purchase_before_later_sale:
  "load_bills (run create_tables same_day_calls) All_Bills [] =
     [(''P'', ''P0001'', ''2024-01-01'', ''Bolt'', 10, 5, 50),
      (''S'', ''S0001'', ''2024-01-01'', ''Bolt'', 3, 8, 24)] \<and>
   map txn_created_at (purchases (run create_tables same_day_calls)) = [''2024-01-01 10:00:00''] \<and>
   map txn_created_at (sales (run create_tables same_day_calls)) = [''2024-01-01 11:00:00''] \<and>
   map bill_no (purchases (snd (add_purchase bolt_db at_11h ''P0002'' ''2024-01-03'' 7 4 6)))
     = [''P0001'', ''P0002''] \<and>
   load_bills (snd (add_purchase bolt_db at_11h ''P0002'' ''2024-01-03'' 7 4 6)) All_Bills [] =
     [(''P'', ''P0001'', ''2024-01-01'', ''Bolt'', 10, 5, 50)]"
  by code_simp

text \<open>
  C6, amended: the listing holds the purchase rows and the sale rows that pass the kind
  filter, match the bill number pattern and belong to an existing item, each tagged with
  its kind and no row lost or repeated. It is in descending order of date. Among the rows
  of one date the purchases come first and the sales after them, each kind in the order
  of its query, which is descending by date and then by row id.
\<close>

theorem load_bills_order:
  "mset (load_bills self bt t) = mset (purchase_bills self bt t) + mset (sale_bills self bt t) \<and>
   sorted (rev (map bill_date (load_bills self bt t))) \<and>
   (\<forall>d. filter (\<lambda>x. bill_date x = d) (load_bills self bt t) =
         filter (\<lambda>x. bill_date x = d) (purchase_bills self bt t) @
         filter (\<lambda>x. bill_date x = d) (sale_bills self bt t)) \<and>
   purchase_bills self bt t =
     (if bt = Sales_Only then [] else map (tag_bill ''P'') (bill_rows (purchases self) (items self) t)) \<and>
   sale_bills self bt t =
     (if bt = Purchases_Only then [] else map (tag_bill ''S'') (bill_rows (sales self) (items self) t)) \<and>
   sorted (rev (map (\<lambda>(p, i). (date p, tid p)) (bill_rows tbl its t))) \<and>
   set (bill_rows tbl its t) =
     {(p, i). p \<in> set tbl \<and> i \<in> set its \<and> item_id p = iid i \<and>
              like (''%'' @ t @ ''%'') (bill_no p)}"
proof -
  have 1: "mset (load_bills self bt t) =
      mset (purchase_bills self bt t) + mset (sale_bills self bt t)"
    by (simp add: load_bills_def mset_sort_reverse)
  have 2: "sorted (rev (map bill_date (load_bills self bt t)))"
    by (simp add: load_bills_def sort_reverse_descending)
  have 3: "filter (\<lambda>x. bill_date x = d) (load_bills self bt t) =
         filter (\<lambda>x. bill_date x = d) (purchase_bills self bt t) @
         filter (\<lambda>x. bill_date x = d) (sale_bills self bt t)" for d
    by (simp add: load_bills_def sort_reverse_stable)
  have 4: "purchase_bills self bt t =
     (if bt = Sales_Only then [] else map (tag_bill ''P'') (bill_rows (purchases self) (items self) t))"
    by (cases bt) (simp_all add: purchase_bills_def)
  have 5: "sale_bills self bt t =
     (if bt = Purchases_Only then [] else map (tag_bill ''S'') (bill_rows (sales self) (items self) t))"
    by (cases bt) (simp_all add: sale_bills_def)
  from 1 2 3 4 5 bill_rows_descending[of tbl its t] set_bill_rows[of tbl its t]
  show ?thesis by blast
qed

theorem load_bills_order_witness:
  "purchase_bills (run create_tables same_day_calls) All_Bills [] =
     [(''P'', ''P0001'', ''2024-01-01'', ''Bolt'', 10, 5, 50)] \<and>
   sale_bills (run create_tables same_day_calls) All_Bills [] =
     [(''S'', ''S0001'', ''2024-01-01'', ''Bolt'', 3, 8, 24)] \<and>
   filter (\<lambda>x. bill_date x = ''2024-01-01'') (load_bills (run create_tables same_day_calls) All_Bills []) =
     [(''P'', ''P0001'', ''2024-01-01'', ''Bolt'', 10, 5, 50),
      (''S'', ''S0001'', ''2024-01-01'', ''Bolt'', 3, 8, 24)]"
proof -
  have p: "purchase_bills (run create_tables same_day_calls) All_Bills [] =
     [(''P'', ''P0001'', ''2024-01-01'', ''Bolt'', 10, 5, 50)]"
    by code_simp
  have s: "sale_bills (run create_tables same_day_calls) All_Bills [] =
     [(''S'', ''S0001'', ''2024-01-01'', ''Bolt'', 3, 8, 24)]"
    by code_simp
  from load_bills_order[of "run create_tables same_day_calls" All_Bills "[]"]
  have "filter (\<lambda>x. bill_date x = ''2024-01-01'')
          (load_bills (run create_tables same_day_calls) All_Bills []) =
        filter (\<lambda>x. bill_date x = ''2024-01-01'')
          (purchase_bills (run create_tables same_day_calls) All_Bills []) @
        filter (\<lambda>x. bill_date x = ''2024-01-01'')
          (sale_bills (run create_tables same_day_calls) All_Bills [])"
    by blast
  with p s show ?thesis by (simp add: bill_date_def)
qed

end
